theory Spec2Isabelle
  imports Complex_Main "HOL-Library.Word"
begin

section \<open>Instanced sphere grid: a model of \<^verbatim>\<open>main.cpp\<close>\<close>

text \<open>
  Conventions of the embedding.
  \<^item> \<^verbatim>\<open>unsigned int\<close> is \<open>32 word\<close>: \<open>+\<close> and \<open>*\<close> wrap around, comparisons are
    unsigned.
  \<^item> \<^verbatim>\<open>float\<close> and \<^verbatim>\<open>double\<close> values are the real numbers they stand for: arithmetic,
    \<open>sin\<close> and \<open>cos\<close> are exact, a literal such as \<^verbatim>\<open>0.1f\<close> is the decimal it is written
    as, and \<^verbatim>\<open>M_PI\<close> is \<open>pi\<close>. Rounding, infinities and NaN are outside the model, so
    a quotient whose divisor is zero has no meaning here (HOL gives it the value 0, the
    source a NaN or an infinity).
  \<^item> A \<^verbatim>\<open>std::vector\<close> is a list. Where a statement depends on whether the vector can
    grow, \<^verbatim>\<open>push_back\<close> is modelled with the bound of the machine and fails beyond it
    (the functions named \<open>_bounded\<close>); elsewhere the list may have any length.
  \<^item> A loop that can run forever is a partial function with an \<open>option\<close> result:
    \<open>None\<close> says that the loop does not finish.
\<close>

type_synonym uint = "32 word"
type_synonym float = real

subsection \<open>Mesh generator\<close>

definition radius :: float where
  "radius = 1"

definition M_PI :: real where
  "M_PI = pi"

text \<open>The inner loop of the vertex pass, \<^verbatim>\<open>for (lon = 0; lon <= longitudeBands; ++lon)\<close>,
  entered at counter \<open>lon\<close>.\<close>

partial_function (option) vertex_lon_loop ::
  "uint \<Rightarrow> float \<Rightarrow> float \<Rightarrow> uint \<Rightarrow> float list \<Rightarrow> float list option" where
  "vertex_lon_loop longitudeBands sinTheta cosTheta lon vertices =
     (if lon \<le> longitudeBands then
        (let phi = real (unat lon) * 2 * M_PI / real (unat longitudeBands);
             sinPhi = sin phi;
             cosPhi = cos phi;
             x = cosPhi * sinTheta;
             y = cosTheta;
             z = sinPhi * sinTheta
         in vertex_lon_loop longitudeBands sinTheta cosTheta (lon + 1)
              (vertices @ [radius * x, radius * y, radius * z, x, y, z]))
      else Some vertices)"

text \<open>The outer loop of the vertex pass, \<^verbatim>\<open>for (lat = 0; lat <= latitudeBands; ++lat)\<close>.\<close>

partial_function (option) vertex_lat_loop ::
  "uint \<Rightarrow> uint \<Rightarrow> uint \<Rightarrow> float list \<Rightarrow> float list option" where
  "vertex_lat_loop latitudeBands longitudeBands lat vertices =
     (if lat \<le> latitudeBands then
        (let theta = real (unat lat) * M_PI / real (unat latitudeBands);
             sinTheta = sin theta;
             cosTheta = cos theta
         in Option.bind (vertex_lon_loop longitudeBands sinTheta cosTheta 0 vertices)
              (\<lambda>vertices'. vertex_lat_loop latitudeBands longitudeBands (lat + 1) vertices'))
      else Some vertices)"

text \<open>The index pass. Its loops compare with \<open><\<close>, so the counters never wrap and the
  loops always finish.\<close>

function index_lon_loop :: "uint \<Rightarrow> uint \<Rightarrow> uint \<Rightarrow> uint list \<Rightarrow> uint list" where
  "index_lon_loop longitudeBands lat lon indices =
     (if lon < longitudeBands then
        (let first = (lat * (longitudeBands + 1)) + lon;
             second = first + longitudeBands + 1
         in index_lon_loop longitudeBands lat (lon + 1)
              (indices @ [first, second, first + 1, second, second + 1, first + 1]))
      else indices)"
  by pat_completeness auto
termination
proof (relation "measure (\<lambda>(longitudeBands, lat, lon, indices). unat longitudeBands - unat lon)")
  fix longitudeBands lat lon :: uint and indices indices' :: "uint list"
  assume below: "lon < longitudeBands"
  then have "lon \<noteq> - 1"
    using word_order.extremum [of longitudeBands] by auto
  then have "unat (lon + 1) = unat lon + 1"
    by (metis Suc_eq_plus1 add.commute unatSuc add_eq_0_iff)
  with below show "((longitudeBands, lat, lon + 1, indices'), (longitudeBands, lat, lon, indices))
      \<in> measure (\<lambda>(longitudeBands, lat, lon, indices). unat longitudeBands - unat lon)"
    by (simp add: word_less_nat_alt)
qed simp

function index_lat_loop :: "uint \<Rightarrow> uint \<Rightarrow> uint \<Rightarrow> uint list \<Rightarrow> uint list" where
  "index_lat_loop latitudeBands longitudeBands lat indices =
     (if lat < latitudeBands then
        index_lat_loop latitudeBands longitudeBands (lat + 1)
          (index_lon_loop longitudeBands lat 0 indices)
      else indices)"
  by pat_completeness auto
termination
proof (relation "measure (\<lambda>(latitudeBands, longitudeBands, lat, indices).
    unat latitudeBands - unat lat)")
  fix latitudeBands longitudeBands lat :: uint and indices :: "uint list"
  assume below: "lat < latitudeBands"
  then have "lat \<noteq> - 1"
    using word_order.extremum [of latitudeBands] by auto
  then have "unat (lat + 1) = unat lat + 1"
    by (metis Suc_eq_plus1 add.commute unatSuc add_eq_0_iff)
  with below show "((latitudeBands, longitudeBands, lat + 1,
        index_lon_loop longitudeBands lat 0 indices),
      (latitudeBands, longitudeBands, lat, indices))
      \<in> measure (\<lambda>(latitudeBands, longitudeBands, lat, indices).
          unat latitudeBands - unat lat)"
    by (simp add: word_less_nat_alt)
qed simp

text \<open>\<^verbatim>\<open>generateSphere\<close> writes through two vector references; the model takes their
  contents at the call and returns their contents at the return.\<close>

definition generateSphere ::
  "float list \<Rightarrow> uint list \<Rightarrow> uint \<Rightarrow> uint \<Rightarrow> (float list \<times> uint list) option" where
  "generateSphere vertices indices latitudeBands longitudeBands =
     (let vertices = [];
          indices = []
      in Option.bind (vertex_lat_loop latitudeBands longitudeBands 0 vertices)
           (\<lambda>vertices'. Some (vertices',
              index_lat_loop latitudeBands longitudeBands 0 indices)))"

subsection \<open>Mesh generator with a bound on the vectors\<close>













subsection \<open>Vectors and matrices of GLM\<close>

text \<open>GLM is an external library. The three operations \<^verbatim>\<open>main\<close> builds an instance
  matrix with are written here as GLM defines them: a \<^verbatim>\<open>mat4\<close> is four columns,
  \<^verbatim>\<open>mat4(s)\<close> is \<open>s\<close> times the identity, \<^verbatim>\<open>translate(m, v)\<close> replaces the last column
  by \<^verbatim>\<open>m[0]*v[0] + m[1]*v[1] + m[2]*v[2] + m[3]\<close>, and \<^verbatim>\<open>scale(m, v)\<close> multiplies
  column \<open>i\<close> by \<^verbatim>\<open>v[i]\<close>. \<open>mat4_mult\<close> is the matrix product (GLM's \<^verbatim>\<open>operator*\<close>);
  the program does not call it, the statements about the instance matrix do.\<close>

datatype vec3 = Vec3 (vx: float) (vy: float) (vz: float)

datatype vec4 = Vec4 float float float float

datatype mat4 = Mat4 vec4 vec4 vec4 vec4

fun vec4_scaled :: "vec4 \<Rightarrow> float \<Rightarrow> vec4" where
  "vec4_scaled (Vec4 a b c d) s = Vec4 (a * s) (b * s) (c * s) (d * s)"

fun vec4_plus :: "vec4 \<Rightarrow> vec4 \<Rightarrow> vec4" where
  "vec4_plus (Vec4 a b c d) (Vec4 a' b' c' d') = Vec4 (a + a') (b + b') (c + c') (d + d')"

definition glm_vec3 :: "float \<Rightarrow> vec3" where
  "glm_vec3 s = Vec3 s s s"

definition glm_mat4 :: "float \<Rightarrow> mat4" where
  "glm_mat4 s = Mat4 (Vec4 s 0 0 0) (Vec4 0 s 0 0) (Vec4 0 0 s 0) (Vec4 0 0 0 s)"

fun glm_translate :: "mat4 \<Rightarrow> vec3 \<Rightarrow> mat4" where
  "glm_translate (Mat4 m0 m1 m2 m3) (Vec3 v0 v1 v2) =
     Mat4 m0 m1 m2
       (vec4_plus (vec4_plus (vec4_plus (vec4_scaled m0 v0) (vec4_scaled m1 v1))
          (vec4_scaled m2 v2)) m3)"

fun glm_scale :: "mat4 \<Rightarrow> vec3 \<Rightarrow> mat4" where
  "glm_scale (Mat4 m0 m1 m2 m3) (Vec3 v0 v1 v2) =
     Mat4 (vec4_scaled m0 v0) (vec4_scaled m1 v1) (vec4_scaled m2 v2) m3"

fun mat4_apply :: "mat4 \<Rightarrow> vec4 \<Rightarrow> vec4" where
  "mat4_apply (Mat4 m0 m1 m2 m3) (Vec4 a b c d) =
     vec4_plus (vec4_plus (vec4_plus (vec4_scaled m0 a) (vec4_scaled m1 b))
       (vec4_scaled m2 c)) (vec4_scaled m3 d)"

fun mat4_mult :: "mat4 \<Rightarrow> mat4 \<Rightarrow> mat4" where
  "mat4_mult m (Mat4 n0 n1 n2 n3) =
     Mat4 (mat4_apply m n0) (mat4_apply m n1) (mat4_apply m n2) (mat4_apply m n3)"

text \<open>The translation by \<open>(x, y, z)\<close> and the uniform scaling by \<open>s\<close>, as matrices.\<close>

definition translation_matrix :: "float \<Rightarrow> float \<Rightarrow> float \<Rightarrow> mat4" where
  "translation_matrix x y z =
     Mat4 (Vec4 1 0 0 0) (Vec4 0 1 0 0) (Vec4 0 0 1 0) (Vec4 x y z 1)"

definition scaling_matrix :: "float \<Rightarrow> mat4" where
  "scaling_matrix s = Mat4 (Vec4 s 0 0 0) (Vec4 0 s 0 0) (Vec4 0 0 s 0) (Vec4 0 0 0 1)"

subsection \<open>Instance grid\<close>

record InstanceData =
  model :: mat4
  color :: vec3

text \<open>The constants of \<^verbatim>\<open>main\<close> that shape the lattice: the three extents, \<^verbatim>\<open>spread\<close>
  and the scale factor (the literal \<^verbatim>\<open>0.33f\<close>). The loops below take them as a
  parameter; \<open>program_lattice\<close> holds the values of the source. The extents and the
  counters \<open>i\<close>, \<open>j\<close>, \<open>k\<close> are \<^verbatim>\<open>int\<close> in the source; they are never negative, and
  \<^verbatim>\<open>instanceCount\<close> is a constant expression, so the product of the extents fits
  \<^verbatim>\<open>int\<close> in every program that compiles. They are natural numbers here.\<close>

record lattice =
  numObj_x :: nat
  numObj_y :: nat
  numObj_z :: nat
  spread :: float
  instance_scale :: float

definition program_lattice :: lattice where
  "program_lattice =
     \<lparr>numObj_x = 30, numObj_y = 30, numObj_z = 30, spread = 1.15, instance_scale = 0.33\<rparr>"

definition instanceCount :: "lattice \<Rightarrow> nat" where
  "instanceCount g = numObj_x g * numObj_y g * numObj_z g"

definition cameraDist :: "lattice \<Rightarrow> float" where
  "cameraDist g = spread g * real (numObj_x g) * 1.5"

definition camSpead2 :: float where
  "camSpead2 = 0.5"

text \<open>The innermost loop, \<^verbatim>\<open>for (int k = 0; k < numObj_z; k++)\<close>. The store
  \<^verbatim>\<open>instanceData[index] = {model, color}\<close> is unchecked in the source; a store past the
  end of the vector is undefined behaviour, which the model reports as \<open>None\<close>. Beside
  the vector the loops carry \<open>stores\<close>, the indices stored to so far in the order of the
  stores, so that the stores can be counted.\<close>

function k_loop ::
  "lattice \<Rightarrow> nat \<Rightarrow> nat \<Rightarrow> nat \<Rightarrow> InstanceData list \<times> nat list
    \<Rightarrow> (InstanceData list \<times> nat list) option" where
  "k_loop g i j k (instanceData, stores) =
     (if k < numObj_z g then
        (let x = (- real (numObj_x g) / 2) * spread g + spread g * real i;
             y = spread g * real j + spread g;
             z = (- real (numObj_z g) / 2) * spread g + spread g * real k;
             model = glm_translate (glm_mat4 1) (Vec3 x y z);
             model = glm_scale model (glm_vec3 (instance_scale g));
             color = Vec3 (0.1 * real (i + 1)) (0.1 * real (j + 1)) (0.1 * real (k + 1));
             index = i * (numObj_y g * numObj_z g) + j * numObj_z g + k
         in if index < length instanceData
            then k_loop g i j (k + 1)
                   (instanceData[index := \<lparr>model = model, color = color\<rparr>], stores @ [index])
            else None)
      else Some (instanceData, stores))"
  by pat_completeness auto
termination
  by (relation "measure (\<lambda>(g, i, j, k, state). numObj_z g - k)") auto

function j_loop ::
  "lattice \<Rightarrow> nat \<Rightarrow> nat \<Rightarrow> InstanceData list \<times> nat list
    \<Rightarrow> (InstanceData list \<times> nat list) option" where
  "j_loop g i j state =
     (if j < numObj_y g then
        (case k_loop g i j 0 state of
           None \<Rightarrow> None
         | Some state' \<Rightarrow> j_loop g i (j + 1) state')
      else Some state)"
  by pat_completeness auto
termination
  by (relation "measure (\<lambda>(g, i, j, state). numObj_y g - j)") auto

function i_loop ::
  "lattice \<Rightarrow> nat \<Rightarrow> InstanceData list \<times> nat list
    \<Rightarrow> (InstanceData list \<times> nat list) option" where
  "i_loop g i state =
     (if i < numObj_x g then
        (case j_loop g i 0 state of
           None \<Rightarrow> None
         | Some state' \<Rightarrow> i_loop g (i + 1) state')
      else Some state)"
  by pat_completeness auto
termination
  by (relation "measure (\<lambda>(g, i, state). numObj_x g - i)") auto

text \<open>Lines 156 to 183 of \<^verbatim>\<open>main\<close>: the vector of \<^verbatim>\<open>instanceCount\<close> records, each
  \<open>blank\<close> at first (what value initialisation of an \<^verbatim>\<open>InstanceData\<close> gives depends on
  the GLM version), and the loop nest over it.\<close>

definition build_instanceData ::
  "lattice \<Rightarrow> InstanceData \<Rightarrow> (InstanceData list \<times> nat list) option" where
  "build_instanceData g blank = i_loop g 0 (replicate (instanceCount g) blank, [])"

subsection \<open>The graphics backend\<close>

text \<open>GLFW, GLEW, GLUT and the OpenGL driver are outside the program. A \<open>backend\<close>
  holds the answers they give to the calls whose results the program reads:
  whether each of the three initialisations succeeds, the handle \<^verbatim>\<open>glCreateShader\<close>
  returns, the compile status and the info log of a shader, the answer of the \<open>n\<close>-th
  call of \<^verbatim>\<open>glfwWindowShouldClose\<close>, the reading of \<^verbatim>\<open>glutGet(GLUT_ELAPSED_TIME)\<close> in
  frame \<open>n\<close>, and the record a fresh \<^verbatim>\<open>std::vector<InstanceData>\<close> is filled with.\<close>

datatype shader_type = GL_VERTEX_SHADER | GL_FRAGMENT_SHADER

datatype shader_source = vertexShaderSource | fragmentShaderSource

type_synonym GLuint = "32 word"

record backend =
  glfwInit_ok :: bool
  glfwCreateWindow_ok :: bool
  glewInit_ok :: bool
  glCreateShader :: "shader_type \<Rightarrow> GLuint"
  compile_status :: "GLuint \<Rightarrow> int"
  info_log :: "GLuint \<Rightarrow> string"
  glfwWindowShouldClose :: "nat \<Rightarrow> bool"
  elapsed_time :: "nat \<Rightarrow> int"
  blank_instance :: InstanceData

text \<open>\<^verbatim>\<open>compileShader\<close> takes the text written to \<^verbatim>\<open>std::cerr\<close> so far and returns it
  with what the call adds; \<^verbatim>\<open>std::endl\<close> is a line feed.\<close>

definition compileShader ::
  "backend \<Rightarrow> shader_type \<Rightarrow> shader_source \<Rightarrow> string \<Rightarrow> GLuint \<times> string" where
  "compileShader env type source cerr =
     (let shader = glCreateShader env type;
          success = compile_status env shader
      in if success = 0
         then (let infoLog = info_log env shader
               in (shader, cerr @ ''Error compiling shader: '' @ infoLog @ [CHR 0x0A]))
         else (shader, cerr))"

subsection \<open>Render loop and \<^verbatim>\<open>main\<close>\<close>

text \<open>The camera step of one frame, lines 230 to 238: \<open>ms\<close> is the reading of
  \<^verbatim>\<open>glutGet(GLUT_ELAPSED_TIME)\<close>.\<close>

definition camera_speed :: float where
  "camera_speed = 0.1"

definition camera_radius :: "lattice \<Rightarrow> float" where
  "camera_radius g = cameraDist g"

fun camera_step :: "lattice \<Rightarrow> int \<Rightarrow> vec3 \<Rightarrow> vec3" where
  "camera_step g ms (Vec3 cx cy cz) =
     (let timeSinceStart = real_of_int ms / 1000
      in Vec3 (sin (timeSinceStart * camera_speed) * - camera_radius g)
           cy
           (cos (timeSinceStart * camera_speed) * camera_radius g))"

text \<open>A call of \<^verbatim>\<open>glDrawElementsInstanced\<close>: its element count and its instance count.\<close>

record draw_call =
  element_count :: nat
  instance_count :: nat

text \<open>The loop \<^verbatim>\<open>while (!glfwWindowShouldClose(window))\<close>, entered at frame \<open>n\<close>. It
  runs for as long as the window stays open, so it need not finish.\<close>

partial_function (option) render_loop ::
  "backend \<Rightarrow> lattice \<Rightarrow> nat \<Rightarrow> nat \<Rightarrow> vec3 \<Rightarrow> draw_call list
    \<Rightarrow> (vec3 \<times> draw_call list) option" where
  "render_loop env g indices_size n cameraPos drawn =
     (if \<not> glfwWindowShouldClose env n then
        render_loop env g indices_size (n + 1)
          (camera_step g (elapsed_time env n) cameraPos)
          (drawn @ [\<lparr>element_count = indices_size, instance_count = instanceCount g\<rparr>])
      else Some (cameraPos, drawn))"

text \<open>What a run of \<^verbatim>\<open>main\<close> leaves behind: the text on \<^verbatim>\<open>std::cerr\<close>, the instance
  records handed to \<^verbatim>\<open>glBufferData\<close>, the draw calls issued and the last camera
  position.\<close>

record trace =
  cerr_text :: string
  instance_buffer :: "InstanceData list"
  draw_calls :: "draw_call list"
  camera :: vec3

definition no_trace :: trace where
  "no_trace = \<lparr>cerr_text = [], instance_buffer = [], draw_calls = [], camera = Vec3 0 0 0\<rparr>"

text \<open>\<^verbatim>\<open>main\<close> with the lattice constants \<open>g\<close>; the program itself is \<open>main\<close> below,
  with \<open>program_lattice\<close>. The result is the return value with the trace, or \<open>None\<close>
  when \<^verbatim>\<open>main\<close> does not return: the render loop runs forever, or a loop before it
  does not deliver its result.\<close>

definition main_with :: "lattice \<Rightarrow> backend \<Rightarrow> (int \<times> trace) option" where
  "main_with g env =
     (if \<not> glfwInit_ok env then Some (- 1, no_trace)
      else if \<not> glfwCreateWindow_ok env then Some (- 1, no_trace)
      else if \<not> glewInit_ok env then Some (- 1, no_trace)
      else
        Option.bind (generateSphere [] [] 4 4) (\<lambda>(vertices, indices).
        Option.bind (build_instanceData g (blank_instance env))
          (\<lambda>(instanceData, stores).
        (let (vertexShader, cerr) = compileShader env GL_VERTEX_SHADER vertexShaderSource [];
             (fragmentShader, cerr) =
               compileShader env GL_FRAGMENT_SHADER fragmentShaderSource cerr;
             cameraPos = Vec3 (camSpead2 * cameraDist g) (cameraDist g) (camSpead2 * cameraDist g)
         in Option.bind (render_loop env g (length indices) 0 cameraPos [])
              (\<lambda>(cameraPos, drawn).
                 Some (0, \<lparr>cerr_text = cerr, instance_buffer = instanceData,
                           draw_calls = drawn, camera = cameraPos\<rparr>))))))"

definition main :: "backend \<Rightarrow> (int \<times> trace) option" where
  "main env = main_with program_lattice env"

section \<open>Closed forms of the loops\<close>

text \<open>What the vertex pass appends for one pair, for one latitude ring and in all;
  these are the terms the loops are proved equal to.\<close>

definition ring_vertex :: "uint \<Rightarrow> float \<Rightarrow> float \<Rightarrow> nat \<Rightarrow> float list" where
  "ring_vertex G s c n =
     (let phi = real n * 2 * pi / real (unat G)
      in [cos phi * s, c, sin phi * s, cos phi * s, c, sin phi * s])"

definition sphere_vertex :: "uint \<Rightarrow> uint \<Rightarrow> nat \<Rightarrow> nat \<Rightarrow> float list" where
  "sphere_vertex L G m n =
     ring_vertex G (sin (real m * pi / real (unat L))) (cos (real m * pi / real (unat L))) n"

definition sphere_ring :: "uint \<Rightarrow> uint \<Rightarrow> nat \<Rightarrow> float list" where
  "sphere_ring L G m = concat (map (sphere_vertex L G m) [0 ..< unat G + 1])"

definition mesh_vertices :: "uint \<Rightarrow> uint \<Rightarrow> float list" where
  "mesh_vertices L G = concat (map (sphere_ring L G) [0 ..< unat L + 1])"

text \<open>The grid loops: the index of a lattice coordinate and its inverse, the record the
  loop body stores for a coordinate, the record that belongs at an index, and the vector
  once the first \<open>n\<close> indices have been stored to.\<close>

definition linear_index :: "lattice \<Rightarrow> nat \<Rightarrow> nat \<Rightarrow> nat \<Rightarrow> nat" where
  "linear_index g i j k = i * (numObj_y g * numObj_z g) + j * numObj_z g + k"

definition instance_record :: "lattice \<Rightarrow> nat \<Rightarrow> nat \<Rightarrow> nat \<Rightarrow> InstanceData" where
  "instance_record g i j k =
     \<lparr>model = glm_scale
        (glm_translate (glm_mat4 1)
           (Vec3 ((- real (numObj_x g) / 2) * spread g + spread g * real i)
                 (spread g * real j + spread g)
                 ((- real (numObj_z g) / 2) * spread g + spread g * real k)))
        (glm_vec3 (instance_scale g)),
      color = Vec3 (0.1 * real (i + 1)) (0.1 * real (j + 1)) (0.1 * real (k + 1))\<rparr>"

definition record_at :: "lattice \<Rightarrow> nat \<Rightarrow> InstanceData" where
  "record_at g p =
     instance_record g (p div (numObj_y g * numObj_z g))
       ((p div numObj_z g) mod numObj_y g) (p mod numObj_z g)"

definition filled :: "lattice \<Rightarrow> nat \<Rightarrow> InstanceData list \<Rightarrow> InstanceData list" where
  "filled g n instanceData = map (record_at g) [0 ..< n] @ drop n instanceData"

definition decode_index :: "lattice \<Rightarrow> nat \<Rightarrow> nat \<times> nat \<times> nat" where
  "decode_index g p =
     (p div (numObj_y g * numObj_z g), (p div numObj_z g) mod numObj_y g, p mod numObj_z g)"

text \<open>The render loop: the camera after the frames \<open>n, \<dots>, n + d - 1\<close>; and what the two
  calls of \<^verbatim>\<open>compileShader\<close> in \<^verbatim>\<open>main\<close> write to \<^verbatim>\<open>std::cerr\<close>.\<close>

definition camera_after :: "backend \<Rightarrow> lattice \<Rightarrow> nat \<Rightarrow> nat \<Rightarrow> vec3 \<Rightarrow> vec3" where
  "camera_after env g n d cameraPos =
     fold (\<lambda>m. camera_step g (elapsed_time env m)) [n ..< n + d] cameraPos"

definition shader_log :: "backend \<Rightarrow> string" where
  "shader_log env =
     snd (compileShader env GL_FRAGMENT_SHADER fragmentShaderSource
       (snd (compileShader env GL_VERTEX_SHADER vertexShaderSource [])))"

text \<open>A backend for the examples: the three initialisations succeed, the vertex shader
  (handle 1) fails to compile, the fragment shader (handle 2) compiles, the window is
  closed after two frames, and a frame takes 16 milliseconds.\<close>

definition sample_backend :: backend where
  "sample_backend =
     \<lparr>glfwInit_ok = True, glfwCreateWindow_ok = True, glewInit_ok = True,
      glCreateShader = (\<lambda>type. case type of GL_VERTEX_SHADER \<Rightarrow> 1 | GL_FRAGMENT_SHADER \<Rightarrow> 2),
      compile_status = (\<lambda>shader. if shader = 1 then 0 else 1),
      info_log = (\<lambda>shader. ''syntax error''),
      glfwWindowShouldClose = (\<lambda>n. 2 \<le> n),
      elapsed_time = (\<lambda>n. 16 * int n),
      blank_instance = \<lparr>model = glm_mat4 0, color = Vec3 0 0 0\<rparr>\<rparr>"

section \<open>Properties\<close>

text \<open>The defining equations of the terminating loops are unfolded by hand.\<close>

declare index_lon_loop.simps [simp del] index_lat_loop.simps [simp del]
declare k_loop.simps [simp del] j_loop.simps [simp del] i_loop.simps [simp del]

subsection \<open>Mesh generator\<close>

lemma uint_succ: "(w::uint) \<noteq> - 1 \<Longrightarrow> unat (w + 1) = unat w + 1"
  by (metis Suc_eq_plus1 add.commute unatSuc add_eq_0_iff)

lemma uint_below_max: "(v::uint) \<le> w \<Longrightarrow> w \<noteq> - 1 \<Longrightarrow> v \<noteq> - 1"
  using word_order.extremum_unique by blast

lemma uint_less_max: "(v::uint) < w \<Longrightarrow> v \<noteq> - 1"
  using word_order.extremum [of w] by auto

lemma vertex_lon_loop_diverges: "vertex_lon_loop (- 1) s c lon vs = None"
proof -
  have "G \<noteq> - 1" if "vertex_lon_loop G s c lon vs = Some r" for G s c lon vs r
    by (rule vertex_lon_loop.raw_induct [where P = "\<lambda>G s c lon vs r. G \<noteq> - 1", OF _ that])
       (auto split: if_splits simp: Let_def)
  from this [of "- 1" s c lon vs] show ?thesis
    by (cases "vertex_lon_loop (- 1) s c lon vs") simp_all
qed

lemma vertex_lat_loop_diverges: "vertex_lat_loop (- 1) G lat vs = None"
proof -
  have "L \<noteq> - 1" if "vertex_lat_loop L G lat vs = Some r" for L G lat vs r
    by (rule vertex_lat_loop.raw_induct [where P = "\<lambda>L G lat vs r. L \<noteq> - 1", OF _ that])
       (auto split: if_splits bind_splits simp: Let_def)
  from this [of "- 1" G lat vs] show ?thesis
    by (cases "vertex_lat_loop (- 1) G lat vs") simp_all
qed

lemma vertex_lon_loop_run:
  assumes "G \<noteq> - 1" and "unat lon \<le> unat G + 1"
  shows "vertex_lon_loop G s c lon vs =
    Some (vs @ concat (map (ring_vertex G s c) [unat lon ..< unat G + 1]))"
  using assms
proof (induction "unat G + 1 - unat lon" arbitrary: lon vs)
  case 0
  then have "unat lon = unat G + 1" by simp
  then have "\<not> lon \<le> G" by (simp add: word_le_nat_alt)
  then show ?case using \<open>unat lon = unat G + 1\<close>
    by (subst vertex_lon_loop.simps) simp
next
  case (Suc d)
  then have le: "unat lon \<le> unat G" by simp
  then have "lon \<le> G" by (simp add: word_le_nat_alt)
  then have step: "unat (lon + 1) = unat lon + 1"
    using Suc.prems(1) uint_below_max uint_succ by blast
  have "vertex_lon_loop G s c (lon + 1) (vs @ ring_vertex G s c (unat lon)) =
      Some ((vs @ ring_vertex G s c (unat lon))
        @ concat (map (ring_vertex G s c) [unat (lon + 1) ..< unat G + 1]))"
    using Suc.hyps(2) Suc.prems(1) le step by (intro Suc.hyps(1)) simp_all
  moreover have "[unat lon ..< unat G + 1] = unat lon # [unat (lon + 1) ..< unat G + 1]"
    using le step by (simp add: upt_conv_Cons)
  ultimately show ?case using \<open>lon \<le> G\<close>
    by (subst vertex_lon_loop.simps) (simp add: ring_vertex_def Let_def radius_def M_PI_def)
qed

lemma vertex_lat_loop_run:
  assumes "L \<noteq> - 1" and "G \<noteq> - 1" and "unat lat \<le> unat L + 1"
  shows "vertex_lat_loop L G lat vs =
    Some (vs @ concat (map (sphere_ring L G) [unat lat ..< unat L + 1]))"
  using assms
proof (induction "unat L + 1 - unat lat" arbitrary: lat vs)
  case 0
  then have "unat lat = unat L + 1" by simp
  then have "\<not> lat \<le> L" by (simp add: word_le_nat_alt)
  then show ?case using \<open>unat lat = unat L + 1\<close>
    by (subst vertex_lat_loop.simps) simp
next
  case (Suc d)
  then have le: "unat lat \<le> unat L" by simp
  then have "lat \<le> L" by (simp add: word_le_nat_alt)
  then have step: "unat (lat + 1) = unat lat + 1"
    using Suc.prems(1) uint_below_max uint_succ by blast
  have "vertex_lat_loop L G (lat + 1) (vs @ sphere_ring L G (unat lat)) =
      Some ((vs @ sphere_ring L G (unat lat))
        @ concat (map (sphere_ring L G) [unat (lat + 1) ..< unat L + 1]))"
    using Suc.hyps(2) Suc.prems(1,2) le step by (intro Suc.hyps(1)) simp_all
  moreover have "[unat lat ..< unat L + 1] = unat lat # [unat (lat + 1) ..< unat L + 1]"
    using le step by (simp add: upt_conv_Cons)
  ultimately show ?case using \<open>lat \<le> L\<close> \<open>G \<noteq> - 1\<close>
    by (subst vertex_lat_loop.simps)
       (simp add: vertex_lon_loop_run sphere_ring_def sphere_vertex_def [abs_def] Let_def M_PI_def)
qed

lemma length_concat_blocks:
  "(\<And>i. i < N \<Longrightarrow> length (f i) = k) \<Longrightarrow> length (concat (map f [0 ..< N])) = N * k"
  by (induction N) simp_all


lemma generateSphere_returns:
  "L \<noteq> - 1 \<Longrightarrow> G \<noteq> - 1 \<Longrightarrow>
     generateSphere vertices indices L G = Some (mesh_vertices L G, index_lat_loop L G 0 [])"
  by (simp add: generateSphere_def vertex_lat_loop_run mesh_vertices_def)

lemma length_sphere_vertex: "length (sphere_vertex L G m n) = 6"
  by (simp add: sphere_vertex_def ring_vertex_def Let_def)

lemma length_sphere_ring: "length (sphere_ring L G m) = (unat G + 1) * 6"
  unfolding sphere_ring_def by (rule length_concat_blocks) (rule length_sphere_vertex)

lemma length_mesh_vertices: "length (mesh_vertices L G) = 6 * ((unat L + 1) * (unat G + 1))"
proof -
  have "length (mesh_vertices L G) = (unat L + 1) * ((unat G + 1) * 6)"
    unfolding mesh_vertices_def by (rule length_concat_blocks) (rule length_sphere_ring)
  then show ?thesis by (simp add: algebra_simps)
qed




lemma unat_plus_le: "unat (a + b :: uint) \<le> unat a + unat b"
  by (simp add: unat_word_ariths)

lemma unat_times_le: "unat (a * b :: uint) \<le> unat a * unat b"
  by (simp add: unat_word_ariths)

lemma length_index_lon_loop:
  "length (index_lon_loop G lat lon indices) = length indices + 6 * (unat G - unat lon)"
proof (induction "unat G - unat lon" arbitrary: lon indices)
  case 0
  then have "\<not> lon < G" by (simp add: word_less_nat_alt)
  with 0 show ?case by (subst index_lon_loop.simps) simp
next
  case (Suc d)
  then have below: "lon < G" by (simp add: word_less_nat_alt)
  then have step: "unat (lon + 1) = unat lon + 1"
    using uint_less_max uint_succ by blast
  have rest: "d = unat G - unat (lon + 1)"
    using Suc.hyps(2) step by arith
  have "length (index_lon_loop G lat (lon + 1) xs) = length xs + 6 * d" for xs
    using Suc.hyps(1) [OF rest, of xs] rest by simp
  with below Suc.hyps(2) show ?case
    by (subst index_lon_loop.simps) (simp add: Let_def)
qed

lemma length_index_lat_loop:
  "length (index_lat_loop L G lat indices) =
     length indices + 6 * ((unat L - unat lat) * unat G)"
proof (induction "unat L - unat lat" arbitrary: lat indices)
  case 0
  then have "\<not> lat < L" by (simp add: word_less_nat_alt)
  with 0 show ?case by (subst index_lat_loop.simps) simp
next
  case (Suc d)
  then have below: "lat < L" by (simp add: word_less_nat_alt)
  then have step: "unat (lat + 1) = unat lat + 1"
    using uint_less_max uint_succ by blast
  have rest: "d = unat L - unat (lat + 1)"
    using Suc.hyps(2) step by arith
  have "length (index_lat_loop L G (lat + 1) xs) = length xs + 6 * (d * unat G)" for xs
    using Suc.hyps(1) [OF rest, of xs] rest by simp
  with below Suc.hyps(2) [symmetric] show ?case
    by (subst index_lat_loop.simps) (simp add: length_index_lon_loop)
qed

lemma unat_first_le:
  "unat (lat * (G + 1) + lon :: uint) \<le> unat lat * (unat G + 1) + unat lon"
proof -
  have "unat (G + 1) \<le> unat G + 1"
    using unat_plus_le [of G 1] by simp
  then have "unat lat * unat (G + 1) \<le> unat lat * (unat G + 1)"
    by (rule mult_le_mono2)
  with unat_times_le [of lat "G + 1"] have "unat (lat * (G + 1)) \<le> unat lat * (unat G + 1)"
    by (rule le_trans)
  with unat_plus_le [of "lat * (G + 1)" lon] show ?thesis by simp
qed

lemma unat_succ_le: "unat (w + 1 :: uint) \<le> unat w + 1"
  using unat_plus_le [of w 1] by simp

lemma index_lon_loop_bound:
  assumes "\<forall>w \<in> set indices. unat w < B"
    and "(unat lat + 2) * (unat G + 1) \<le> B"
  shows "\<forall>w \<in> set (index_lon_loop G lat lon indices). unat w < B"
  using assms(1)
proof (induction "unat G - unat lon" arbitrary: lon indices)
  case 0
  then have "\<not> lon < G" by (simp add: word_less_nat_alt)
  with 0 show ?case by (subst index_lon_loop.simps) simp
next
  case (Suc d)
  then have below: "lon < G" by (simp add: word_less_nat_alt)
  then have step: "unat (lon + 1) = unat lon + 1"
    using uint_less_max uint_succ by blast
  from below have less: "unat lon < unat G" by (simp add: word_less_nat_alt)
  let ?first = "lat * (G + 1) + lon"
  let ?second = "?first + G + 1"
  have room: "unat lat * (unat G + 1) + unat lon + unat G + 2 < B"
  proof -
    have "unat lat * (unat G + 1) + unat lon + unat G + 2 < (unat lat + 2) * (unat G + 1)"
      using less by (simp add: algebra_simps)
    with assms(2) show ?thesis by simp
  qed
  have first: "unat ?first \<le> unat lat * (unat G + 1) + unat lon"
    by (rule unat_first_le)
  have first1: "unat (?first + 1) \<le> unat lat * (unat G + 1) + unat lon + 1"
    using unat_succ_le [of ?first] first by simp
  have "unat (?first + G) \<le> unat lat * (unat G + 1) + unat lon + unat G"
    using unat_plus_le [of ?first G] first by simp
  then have second: "unat ?second \<le> unat lat * (unat G + 1) + unat lon + unat G + 1"
    using unat_succ_le [of "?first + G"] by simp
  then have second1: "unat (?second + 1) \<le> unat lat * (unat G + 1) + unat lon + unat G + 2"
    using unat_succ_le [of ?second] by simp
  have "\<forall>w \<in> set (indices @ [?first, ?second, ?first + 1, ?second, ?second + 1, ?first + 1]).
      unat w < B"
    using Suc.prems first first1 second second1 room by auto
  moreover have "d = unat G - unat (lon + 1)"
    using Suc.hyps(2) step by arith
  ultimately have "\<forall>w \<in> set (index_lon_loop G lat (lon + 1)
      (indices @ [?first, ?second, ?first + 1, ?second, ?second + 1, ?first + 1])). unat w < B"
    by (intro Suc.hyps(1))
  with below show ?case
    by (subst index_lon_loop.simps) (simp only: if_True Let_def)
qed

lemma index_lat_loop_bound:
  assumes "\<forall>w \<in> set indices. unat w < B"
    and "(unat L + 1) * (unat G + 1) \<le> B"
  shows "\<forall>w \<in> set (index_lat_loop L G lat indices). unat w < B"
  using assms(1)
proof (induction "unat L - unat lat" arbitrary: lat indices)
  case 0
  then have "\<not> lat < L" by (simp add: word_less_nat_alt)
  with 0 show ?case by (subst index_lat_loop.simps) simp
next
  case (Suc d)
  then have below: "lat < L" by (simp add: word_less_nat_alt)
  then have step: "unat (lat + 1) = unat lat + 1"
    using uint_less_max uint_succ by blast
  from below have "unat lat + 2 \<le> unat L + 1" by (simp add: word_less_nat_alt)
  then have "(unat lat + 2) * (unat G + 1) \<le> (unat L + 1) * (unat G + 1)"
    by (rule mult_le_mono1)
  with assms(2) have "(unat lat + 2) * (unat G + 1) \<le> B" by simp
  with Suc.prems have "\<forall>w \<in> set (index_lon_loop G lat 0 indices). unat w < B"
    by (intro index_lon_loop_bound)
  moreover have "d = unat L - unat (lat + 1)"
    using Suc.hyps(2) step by arith
  ultimately have "\<forall>w \<in> set (index_lat_loop L G (lat + 1) (index_lon_loop G lat 0 indices)).
      unat w < B"
    by (intro Suc.hyps(1))
  with below show ?case
    by (subst index_lat_loop.simps) simp
qed

lemma generateSphere_Some:
  assumes "generateSphere vertices0 indices0 L G = Some (vertices, indices)"
  shows "vertices = mesh_vertices L G" and "indices = index_lat_loop L G 0 []"
proof -
  have "L \<noteq> - 1"
    using assms by (auto simp: generateSphere_def vertex_lat_loop_diverges)
  moreover have "G \<noteq> - 1"
  proof
    assume "G = - 1"
    then have "vertex_lat_loop L G 0 [] = None"
      by (subst vertex_lat_loop.simps) (simp add: vertex_lon_loop_diverges)
    with assms show False by (simp add: generateSphere_def)
  qed
  ultimately have "generateSphere vertices0 indices0 L G =
      Some (mesh_vertices L G, index_lat_loop L G 0 [])"
    by (rule generateSphere_returns)
  with assms show "vertices = mesh_vertices L G" and "indices = index_lat_loop L G 0 []"
    by simp_all
qed

text \<open>C3: for all band counts, every index the index pass emits is below the number
  \<open>(L + 1) * (G + 1)\<close> of vertices; and whenever \<^verbatim>\<open>generateSphere\<close> returns, its index
  buffer is the output of that pass and every index addresses a whole vertex of its
  vertex buffer.\<close>

theorem generateSphere_indices_in_range:
  "(\<forall>w \<in> set (index_lat_loop L G 0 []). unat w < (unat L + 1) * (unat G + 1)) \<and>
   (\<forall>vertices indices. generateSphere vertices0 indices0 L G = Some (vertices, indices) \<longrightarrow>
      indices = index_lat_loop L G 0 [] \<and>
      length vertices = 6 * ((unat L + 1) * (unat G + 1)) \<and>
      (\<forall>w \<in> set indices. 6 * unat w + 5 < length vertices))"
proof -
  have range: "\<forall>w \<in> set (index_lat_loop L G 0 []). unat w < (unat L + 1) * (unat G + 1)"
    by (rule index_lat_loop_bound) simp_all
  moreover have "indices = index_lat_loop L G 0 [] \<and>
      length vertices = 6 * ((unat L + 1) * (unat G + 1)) \<and>
      (\<forall>w \<in> set indices. 6 * unat w + 5 < length vertices)"
    if "generateSphere vertices0 indices0 L G = Some (vertices, indices)" for vertices indices
  proof -
    from that have "vertices = mesh_vertices L G" and "indices = index_lat_loop L G 0 []"
      by (rule generateSphere_Some)+
    with range show ?thesis
      by (auto simp: length_mesh_vertices)
  qed
  ultimately show ?thesis by blast
qed

text \<open>Witness: the largest index of the 4 by 4 sphere, 24, against its 25 vertices.\<close>

theorem generateSphere_indices_in_range_witness:
  "(24::uint) \<in> set (index_lat_loop 4 4 0 []) \<and> unat (24::uint) < 25 \<and>
   (\<exists>vertices indices. generateSphere [] [] 4 4 = Some (vertices, indices) \<and>
      24 \<in> set indices \<and> 6 * unat (24::uint) + 5 < length vertices)"
proof -
  have mem: "(24::uint) \<in> set (index_lat_loop 4 4 0 [])"
    by code_simp
  have ret: "generateSphere [] [] 4 4 = Some (mesh_vertices 4 4, index_lat_loop 4 4 0 [])"
    by (rule generateSphere_returns) simp_all
  from generateSphere_indices_in_range [of 4 4 "[]" "[]"] mem ret
  have "unat (24::uint) < (unat (4::uint) + 1) * (unat (4::uint) + 1)"
    and "6 * unat (24::uint) + 5 < length (mesh_vertices 4 4)"
    by blast+
  with mem ret show ?thesis by simp
qed

lemma index_lon_loop_append:
  "index_lon_loop G lat lon indices = indices @ index_lon_loop G lat lon []"
proof (induction "unat G - unat lon" arbitrary: lon indices)
  case 0
  then have "\<not> lon < G" by (simp add: word_less_nat_alt)
  then show ?case by (simp add: index_lon_loop.simps [of G lat lon])
next
  case (Suc d)
  then have below: "lon < G" by (simp add: word_less_nat_alt)
  then have step: "unat (lon + 1) = unat lon + 1"
    using uint_less_max uint_succ by blast
  have rest: "d = unat G - unat (lon + 1)"
    using Suc.hyps(2) step by arith
  have split: "index_lon_loop G lat (lon + 1) xs = xs @ index_lon_loop G lat (lon + 1) []" for xs
    by (rule Suc.hyps(1) [OF rest])
  let ?first = "lat * (G + 1) + lon"
  let ?second = "?first + G + 1"
  let ?six = "[?first, ?second, ?first + 1, ?second, ?second + 1, ?first + 1]"
  have "index_lon_loop G lat lon xs = index_lon_loop G lat (lon + 1) (xs @ ?six)" for xs
    using below by (subst index_lon_loop.simps) (simp only: if_True Let_def)
  then have "index_lon_loop G lat lon indices = index_lon_loop G lat (lon + 1) (indices @ ?six)"
    and "index_lon_loop G lat lon [] = index_lon_loop G lat (lon + 1) ([] @ ?six)"
    by blast+
  then show ?case
    using split [of "indices @ ?six"] split [of "[] @ ?six"] by (simp only: append_assoc append_Nil)
qed

lemma index_lat_loop_append:
  "index_lat_loop L G lat indices = indices @ index_lat_loop L G lat []"
proof (induction "unat L - unat lat" arbitrary: lat indices)
  case 0
  then have "\<not> lat < L" by (simp add: word_less_nat_alt)
  then show ?case by (simp add: index_lat_loop.simps [of L G lat])
next
  case (Suc d)
  then have below: "lat < L" by (simp add: word_less_nat_alt)
  then have step: "unat (lat + 1) = unat lat + 1"
    using uint_less_max uint_succ by blast
  have rest: "d = unat L - unat (lat + 1)"
    using Suc.hyps(2) step by arith
  have split: "index_lat_loop L G (lat + 1) xs = xs @ index_lat_loop L G (lat + 1) []" for xs
    by (rule Suc.hyps(1) [OF rest])
  have "index_lat_loop L G lat xs = index_lat_loop L G (lat + 1) (index_lon_loop G lat 0 xs)"
    for xs
    using below by (subst index_lat_loop.simps) (simp only: if_True)
  then have "index_lat_loop L G lat indices =
      index_lat_loop L G (lat + 1) (indices @ index_lon_loop G lat 0 [])"
    and "index_lat_loop L G lat [] = index_lat_loop L G (lat + 1) (index_lon_loop G lat 0 [])"
    using index_lon_loop_append [of G lat 0 indices] by simp_all
  then show ?case
    using split [of "indices @ index_lon_loop G lat 0 []"] split [of "index_lon_loop G lat 0 []"]
    by (simp only: append_assoc append_Nil)
qed

text \<open>C10: \<^verbatim>\<open>generateSphere\<close> clears both vectors first, so its outcome, the two buffers
  or the failure to return, is the same for any prior contents of the vectors. The
  clearing is what makes it so: the two passes only append, and run on vectors that
  are not empty they leave the prior contents in front of the mesh.\<close>

theorem generateSphere_ignores_prior_contents:
  "generateSphere vertices indices L G = generateSphere vertices' indices' L G \<and>
   (\<forall>mesh triangles. generateSphere vertices indices L G = Some (mesh, triangles) \<longrightarrow>
      vertex_lat_loop L G 0 vertices = Some (vertices @ mesh) \<and>
      index_lat_loop L G 0 indices = indices @ triangles)"
proof (intro conjI allI impI)
  show "generateSphere vertices indices L G = generateSphere vertices' indices' L G"
    by (simp add: generateSphere_def)
next
  fix mesh triangles
  assume ret: "generateSphere vertices indices L G = Some (mesh, triangles)"
  then have mesh: "mesh = mesh_vertices L G" and triangles: "triangles = index_lat_loop L G 0 []"
    by (rule generateSphere_Some)+
  have "L \<noteq> - 1"
    using ret by (auto simp: generateSphere_def vertex_lat_loop_diverges)
  moreover have "G \<noteq> - 1"
  proof
    assume "G = - 1"
    then have "vertex_lat_loop L G 0 [] = None"
      by (subst vertex_lat_loop.simps) (simp add: vertex_lon_loop_diverges)
    with ret show False by (simp add: generateSphere_def)
  qed
  ultimately show "vertex_lat_loop L G 0 vertices = Some (vertices @ mesh)"
    using vertex_lat_loop_run [of L G 0 vertices] by (simp add: mesh mesh_vertices_def)
  show "index_lat_loop L G 0 indices = indices @ triangles"
    unfolding triangles by (rule index_lat_loop_append)
qed

text \<open>Witness: the sphere of the program, generated into vectors that hold one element
  each.\<close>

theorem generateSphere_ignores_prior_contents_witness:
  "generateSphere [7] [9] 4 4 = generateSphere [] [] 4 4 \<and>
   (\<exists>mesh triangles. generateSphere [7] [9] 4 4 = Some (mesh, triangles) \<and>
      vertex_lat_loop 4 4 0 [7] = Some (7 # mesh) \<and>
      index_lat_loop 4 4 0 [9] = 9 # triangles)"
proof -
  have ret: "generateSphere [7] [9] 4 4 = Some (mesh_vertices 4 4, index_lat_loop 4 4 0 [])"
    by (rule generateSphere_returns) simp_all
  with generateSphere_ignores_prior_contents [of "[7]" "[9]" 4 4 "[]" "[]"]
  have "generateSphere [7] [9] 4 4 = generateSphere [] [] 4 4"
    and "vertex_lat_loop 4 4 0 [7] = Some ([7] @ mesh_vertices 4 4)"
    and "index_lat_loop 4 4 0 [9] = [9] @ index_lat_loop 4 4 0 []"
    by blast+
  with ret show ?thesis by simp
qed

subsection \<open>Mesh generator with a bound on the vectors\<close>






























subsection \<open>Instance grid\<close>

lemma linear_index_decode:
  assumes "j < numObj_y g" and "k < numObj_z g"
  shows "linear_index g i j k div (numObj_y g * numObj_z g) = i"
    and "(linear_index g i j k div numObj_z g) mod numObj_y g = j"
    and "linear_index g i j k mod numObj_z g = k"
proof -
  let ?Y = "numObj_y g" and ?Z = "numObj_z g"
  have row: "linear_index g i j k = (i * ?Y + j) * ?Z + k"
    by (simp add: linear_index_def algebra_simps)
  from assms(2) show "linear_index g i j k mod ?Z = k"
    by (simp add: row)
  from assms(2) have cell: "linear_index g i j k div ?Z = i * ?Y + j"
    by (simp add: row)
  with assms(1) show "(linear_index g i j k div ?Z) mod ?Y = j"
    by simp
  have "linear_index g i j k div (?Y * ?Z) = (linear_index g i j k div ?Z) div ?Y"
    by (subst mult.commute) (rule div_mult2_eq)
  with cell assms(1) show "linear_index g i j k div (?Y * ?Z) = i"
    by simp
qed

lemma record_at_linear_index:
  "j < numObj_y g \<Longrightarrow> k < numObj_z g \<Longrightarrow>
     record_at g (linear_index g i j k) = instance_record g i j k"
  by (simp add: record_at_def linear_index_decode)

lemma linear_index_less:
  assumes "i < numObj_x g" and "j < numObj_y g" and "k < numObj_z g"
  shows "linear_index g i j k < instanceCount g"
proof -
  let ?Y = "numObj_y g" and ?Z = "numObj_z g"
  have "linear_index g i j k < (i * ?Y + j) * ?Z + ?Z"
    using assms(3) by (simp add: linear_index_def algebra_simps)
  also have "\<dots> = (i * ?Y + Suc j) * ?Z" by (simp add: algebra_simps)
  also have "\<dots> \<le> (i * ?Y + ?Y) * ?Z"
    using assms(2) by (intro mult_le_mono1) simp
  also have "\<dots> = Suc i * (?Y * ?Z)" by (simp add: algebra_simps)
  also have "\<dots> \<le> numObj_x g * (?Y * ?Z)"
    using assms(1) by (intro mult_le_mono1) simp
  finally show ?thesis by (simp add: instanceCount_def mult.assoc)
qed

lemma length_filled: "n \<le> length xs \<Longrightarrow> length (filled g n xs) = length xs"
  by (simp add: filled_def)

lemma filled_store:
  assumes "n < length xs"
  shows "(filled g n xs)[n := record_at g n] = filled g (Suc n) xs"
proof -
  have "(filled g n xs)[n := record_at g n]
      = map (record_at g) [0 ..< n] @ (drop n xs)[0 := record_at g n]"
    by (simp add: filled_def list_update_append)
  also have "drop n xs = xs ! n # drop (Suc n) xs"
    using assms by (simp add: Cons_nth_drop_Suc)
  finally show ?thesis by (simp add: filled_def)
qed

lemma linear_index_next:
  "Suc (linear_index g i j k) = linear_index g i j (Suc k)"
  "linear_index g i j (numObj_z g) = linear_index g i (Suc j) 0"
  "linear_index g i (numObj_y g) 0 = linear_index g (Suc i) 0 0"
  "linear_index g 0 0 0 = 0"
  "linear_index g (numObj_x g) 0 0 = instanceCount g"
  by (simp_all add: linear_index_def instanceCount_def algebra_simps)

lemma k_loop_run:
  assumes "i < numObj_x g" and "j < numObj_y g" and "k \<le> numObj_z g"
    and "length xs = instanceCount g"
  shows "k_loop g i j k (filled g (linear_index g i j k) xs, [0 ..< linear_index g i j k]) =
    Some (filled g (linear_index g i j (numObj_z g)) xs,
          [0 ..< linear_index g i j (numObj_z g)])"
  using assms(3)
proof (induction "numObj_z g - k" arbitrary: k)
  case 0
  then have "k = numObj_z g" by simp
  then show ?case by (subst k_loop.simps) simp
next
  case (Suc d)
  then have below: "k < numObj_z g" by simp
  let ?n = "linear_index g i j k"
  have inside: "?n < length xs"
    using assms(1,2,4) below by (simp add: linear_index_less)
  then have room: "?n < length (filled g ?n xs)"
    by (simp add: length_filled)
  have cell: "\<lparr>model = glm_scale
        (glm_translate (glm_mat4 1)
           (Vec3 ((- real (numObj_x g) / 2) * spread g + spread g * real i)
                 (spread g * real j + spread g)
                 ((- real (numObj_z g) / 2) * spread g + spread g * real k)))
        (glm_vec3 (instance_scale g)),
      color = Vec3 (0.1 * real (i + 1)) (0.1 * real (j + 1)) (0.1 * real (k + 1))\<rparr>
      = record_at g ?n"
    using assms(2) below by (simp add: record_at_linear_index instance_record_def)
  have "k_loop g i j (Suc k)
      (filled g (linear_index g i j (Suc k)) xs, [0 ..< linear_index g i j (Suc k)]) =
    Some (filled g (linear_index g i j (numObj_z g)) xs,
          [0 ..< linear_index g i j (numObj_z g)])"
    using Suc.hyps(2) below by (intro Suc.hyps(1)) simp_all
  then have "k_loop g i j (k + 1)
      ((filled g ?n xs)[?n := record_at g ?n], [0 ..< ?n] @ [?n]) =
    Some (filled g (linear_index g i j (numObj_z g)) xs,
          [0 ..< linear_index g i j (numObj_z g)])"
    using inside by (simp add: filled_store linear_index_next(1) [symmetric])
  with below room cell show ?case
    by (subst k_loop.simps) (simp add: Let_def linear_index_def [symmetric])
qed

lemma j_loop_run:
  assumes "i < numObj_x g" and "j \<le> numObj_y g" and "length xs = instanceCount g"
  shows "j_loop g i j (filled g (linear_index g i j 0) xs, [0 ..< linear_index g i j 0]) =
    Some (filled g (linear_index g i (numObj_y g) 0) xs,
          [0 ..< linear_index g i (numObj_y g) 0])"
  using assms(2)
proof (induction "numObj_y g - j" arbitrary: j)
  case 0
  then have "j = numObj_y g" by simp
  then show ?case by (subst j_loop.simps) simp
next
  case (Suc d)
  then have below: "j < numObj_y g" by simp
  have "j_loop g i (Suc j)
      (filled g (linear_index g i (Suc j) 0) xs, [0 ..< linear_index g i (Suc j) 0]) =
    Some (filled g (linear_index g i (numObj_y g) 0) xs,
          [0 ..< linear_index g i (numObj_y g) 0])"
    using Suc.hyps(2) below by (intro Suc.hyps(1)) simp_all
  with below assms(1,3) show ?case
    by (subst j_loop.simps) (simp add: k_loop_run linear_index_next(2))
qed

lemma i_loop_run:
  assumes "i \<le> numObj_x g" and "length xs = instanceCount g"
  shows "i_loop g i (filled g (linear_index g i 0 0) xs, [0 ..< linear_index g i 0 0]) =
    Some (filled g (instanceCount g) xs, [0 ..< instanceCount g])"
  using assms(1)
proof (induction "numObj_x g - i" arbitrary: i)
  case 0
  then have "i = numObj_x g" by simp
  then show ?case by (subst i_loop.simps) (simp add: linear_index_next(5))
next
  case (Suc d)
  then have below: "i < numObj_x g" by simp
  have "i_loop g (Suc i)
      (filled g (linear_index g (Suc i) 0 0) xs, [0 ..< linear_index g (Suc i) 0 0]) =
    Some (filled g (instanceCount g) xs, [0 ..< instanceCount g])"
    using Suc.hyps(2) below by (intro Suc.hyps(1)) simp_all
  with below assms(2) show ?case
    by (subst i_loop.simps) (simp add: j_loop_run linear_index_next(3))
qed

lemma build_instanceData_returns:
  "build_instanceData g blank =
     Some (map (record_at g) [0 ..< instanceCount g], [0 ..< instanceCount g])"
proof -
  let ?xs = "replicate (instanceCount g) blank"
  have "i_loop g 0 (filled g (linear_index g 0 0 0) ?xs, [0 ..< linear_index g 0 0 0]) =
      Some (filled g (instanceCount g) ?xs, [0 ..< instanceCount g])"
    by (rule i_loop_run) simp_all
  then show ?thesis
    by (simp add: build_instanceData_def linear_index_next(4) filled_def)
qed

lemma linear_index_recompose:
  "linear_index g (p div (numObj_y g * numObj_z g)) ((p div numObj_z g) mod numObj_y g)
     (p mod numObj_z g) = p"
proof -
  let ?Y = "numObj_y g" and ?Z = "numObj_z g"
  let ?q = "p div ?Z"
  have "p div (?Y * ?Z) = ?q div ?Y"
    by (subst mult.commute) (rule div_mult2_eq)
  then have "linear_index g (p div (?Y * ?Z)) (?q mod ?Y) (p mod ?Z)
      = linear_index g (?q div ?Y) (?q mod ?Y) (p mod ?Z)"
    by (rule arg_cong)
  also have "\<dots> = (?q div ?Y * ?Y + ?q mod ?Y) * ?Z + p mod ?Z"
    by (simp only: linear_index_def add_mult_distrib mult.assoc)
  also have "\<dots> = ?q * ?Z + p mod ?Z"
    by (simp only: div_mult_mod_eq)
  also have "\<dots> = p"
    by (simp only: div_mult_mod_eq)
  finally show ?thesis .
qed

lemma decode_index_inside:
  assumes "p < instanceCount g"
  shows "p div (numObj_y g * numObj_z g) < numObj_x g"
    and "(p div numObj_z g) mod numObj_y g < numObj_y g"
    and "p mod numObj_z g < numObj_z g"
proof -
  from assms have "instanceCount g \<noteq> 0" by auto
  then have "numObj_y g \<noteq> 0" and "numObj_z g \<noteq> 0"
    by (auto simp: instanceCount_def)
  then show "(p div numObj_z g) mod numObj_y g < numObj_y g" and "p mod numObj_z g < numObj_z g"
    by simp_all
  from assms have "p < numObj_x g * (numObj_y g * numObj_z g)"
    by (simp add: instanceCount_def mult.assoc)
  then show "p div (numObj_y g * numObj_z g) < numObj_x g"
    by (rule less_mult_imp_div_less)
qed

lemma linear_index_bij:
  "bij_betw (\<lambda>(i, j, k). linear_index g i j k)
     ({0 ..< numObj_x g} \<times> {0 ..< numObj_y g} \<times> {0 ..< numObj_z g})
     {0 ..< instanceCount g}"
proof (rule bij_betw_byWitness [where f' = "decode_index g"])
  show "\<forall>a \<in> {0 ..< numObj_x g} \<times> {0 ..< numObj_y g} \<times> {0 ..< numObj_z g}.
      decode_index g (case a of (i, j, k) \<Rightarrow> linear_index g i j k) = a"
    by (auto simp: decode_index_def linear_index_decode)
  show "\<forall>p \<in> {0 ..< instanceCount g}.
      (case decode_index g p of (i, j, k) \<Rightarrow> linear_index g i j k) = p"
    by (simp add: decode_index_def linear_index_recompose)
  show "(\<lambda>(i, j, k). linear_index g i j k)
      ` ({0 ..< numObj_x g} \<times> {0 ..< numObj_y g} \<times> {0 ..< numObj_z g})
      \<subseteq> {0 ..< instanceCount g}"
    by (auto simp: linear_index_less)
  show "decode_index g ` {0 ..< instanceCount g}
      \<subseteq> {0 ..< numObj_x g} \<times> {0 ..< numObj_y g} \<times> {0 ..< numObj_z g}"
    by (auto simp: decode_index_def decode_index_inside)
qed

lemma instance_model_product:
  "glm_scale (glm_translate (glm_mat4 1) (Vec3 x y z)) (glm_vec3 s) =
     mat4_mult (translation_matrix x y z) (scaling_matrix s)"
  by (simp add: glm_mat4_def glm_vec3_def translation_matrix_def scaling_matrix_def)

lemma build_instanceData_nth:
  assumes "i < numObj_x g" and "j < numObj_y g" and "k < numObj_z g"
  shows "map (record_at g) [0 ..< instanceCount g]
      ! (i * (numObj_y g * numObj_z g) + j * numObj_z g + k) = instance_record g i j k"
proof -
  have "linear_index g i j k < instanceCount g"
    using assms by (rule linear_index_less)
  then have "map (record_at g) [0 ..< instanceCount g] ! linear_index g i j k =
      record_at g (linear_index g i j k)"
    by simp
  with assms(2,3) have "map (record_at g) [0 ..< instanceCount g] ! linear_index g i j k =
      instance_record g i j k"
    by (simp add: record_at_linear_index)
  then show ?thesis by (simp only: linear_index_def)
qed

text \<open>C4: the record of the lattice coordinate \<open>(i, j, k)\<close> has the model matrix \<open>T * S\<close>,
  the translation by \<open>(x, y, z)\<close> times the uniform scaling, with
  \<open>x = - (Nx / 2) * spread + spread * i\<close>, \<open>y = spread * j + spread\<close> and
  \<open>z = - (Nz / 2) * spread + spread * k\<close>.\<close>

theorem instance_model_matrix:
  assumes "i < numObj_x g" and "j < numObj_y g" and "k < numObj_z g"
  shows "\<exists>instanceData stores.
    build_instanceData g blank = Some (instanceData, stores) \<and>
    model (instanceData ! (i * (numObj_y g * numObj_z g) + j * numObj_z g + k)) =
      mat4_mult
        (translation_matrix
           (- (real (numObj_x g) / 2) * spread g + spread g * real i)
           (spread g * real j + spread g)
           (- (real (numObj_z g) / 2) * spread g + spread g * real k))
        (scaling_matrix (instance_scale g))"
  using assms
  by (simp add: build_instanceData_returns build_instanceData_nth instance_record_def
      instance_model_product)

text \<open>Witness: the lattice of extent 2 in each direction, for any spread \<open>s\<close> and scale \<open>c\<close>: the
  record of \<open>(0, 0, 0)\<close> is translated by \<open>(- s, s, - s)\<close>, that of \<open>(1, 1, 1)\<close> by
  \<open>(0, 2 * s, 0)\<close>.\<close>

theorem instance_model_matrix_witness:
  "\<forall>s c blank. \<exists>instanceData stores.
     build_instanceData
       \<lparr>numObj_x = 2, numObj_y = 2, numObj_z = 2, spread = s, instance_scale = c\<rparr> blank =
       Some (instanceData, stores) \<and>
     model (instanceData ! 0) = mat4_mult (translation_matrix (- s) s (- s)) (scaling_matrix c) \<and>
     model (instanceData ! 7) = mat4_mult (translation_matrix 0 (2 * s) 0) (scaling_matrix c)"
proof (intro allI)
  fix s c :: float and blank :: InstanceData
  let ?g = "\<lparr>numObj_x = 2, numObj_y = 2, numObj_z = 2, spread = s, instance_scale = c\<rparr>"
  have "0 < numObj_x ?g" "0 < numObj_y ?g" "0 < numObj_z ?g"
    and "1 < numObj_x ?g" "1 < numObj_y ?g" "1 < numObj_z ?g"
    by simp_all
  from instance_model_matrix [OF this(1-3), of blank] instance_model_matrix [OF this(4-6), of blank]
  show "\<exists>instanceData stores.
     build_instanceData ?g blank = Some (instanceData, stores) \<and>
     model (instanceData ! 0) = mat4_mult (translation_matrix (- s) s (- s)) (scaling_matrix c) \<and>
     model (instanceData ! 7) = mat4_mult (translation_matrix 0 (2 * s) 0) (scaling_matrix c)"
    by auto
qed

text \<open>C5: the record of \<open>(i, j, k)\<close> has the colour
  \<open>(0.1 * (i + 1), 0.1 * (j + 1), 0.1 * (k + 1))\<close>, whatever the spread and the scale.
  Nothing clamps it: a component exceeds 1 as soon as its coordinate is 10 or more, and
  it reaches at most a tenth of the extent (3 for the extent 30 of the program).\<close>

theorem instance_color_rule:
  assumes "i < numObj_x g" and "j < numObj_y g" and "k < numObj_z g"
  shows "\<exists>instanceData stores.
    build_instanceData g blank = Some (instanceData, stores) \<and>
    (let c = color (instanceData ! (i * (numObj_y g * numObj_z g) + j * numObj_z g + k))
     in c = Vec3 (0.1 * real (i + 1)) (0.1 * real (j + 1)) (0.1 * real (k + 1)) \<and>
        (10 \<le> i \<longrightarrow> 1 < vx c) \<and> (10 \<le> j \<longrightarrow> 1 < vy c) \<and> (10 \<le> k \<longrightarrow> 1 < vz c) \<and>
        vx c \<le> 0.1 * real (numObj_x g) \<and> vy c \<le> 0.1 * real (numObj_y g) \<and>
        vz c \<le> 0.1 * real (numObj_z g))"
  using assms
  by (simp add: build_instanceData_returns build_instanceData_nth instance_record_def Let_def)

text \<open>Witness: the last record of the program, of the coordinate \<open>(29, 29, 29)\<close>, has the
  colour \<open>(3, 3, 3)\<close>.\<close>

theorem instance_color_rule_witness:
  "\<exists>instanceData stores.
     build_instanceData program_lattice \<lparr>model = glm_mat4 0, color = Vec3 0 0 0\<rparr> =
       Some (instanceData, stores) \<and>
     color (instanceData ! 26999) = Vec3 3 3 3 \<and>
     1 < vx (color (instanceData ! 26999))"
proof -
  have "29 < numObj_x program_lattice" "29 < numObj_y program_lattice"
    "29 < numObj_z program_lattice"
    by (simp_all add: program_lattice_def)
  from instance_color_rule [OF this, of "\<lparr>model = glm_mat4 0, color = Vec3 0 0 0\<rparr>"]
  show ?thesis
    by (auto simp: Let_def program_lattice_def)
qed

subsection \<open>Render loop and \<^verbatim>\<open>main\<close>\<close>

lemma render_loop_run:
  assumes "glfwWindowShouldClose env (n + d)"
    and "\<forall>m < d. \<not> glfwWindowShouldClose env (n + m)"
  shows "render_loop env g indices_size n cameraPos drawn =
    Some (camera_after env g n d cameraPos,
          drawn @ replicate d \<lparr>element_count = indices_size, instance_count = instanceCount g\<rparr>)"
  using assms
proof (induction d arbitrary: n cameraPos drawn)
  case 0
  then show ?case by (subst render_loop.simps) (simp add: camera_after_def)
next
  case (Suc d)
  from Suc.prems(2) have "\<not> glfwWindowShouldClose env (n + 0)" by blast
  then have open_now: "\<not> glfwWindowShouldClose env n" by simp
  have later: "\<forall>m < d. \<not> glfwWindowShouldClose env (Suc n + m)"
    using Suc.prems(2) by (metis Suc_less_eq add_Suc_right add_Suc)
  have "render_loop env g indices_size (Suc n) c xs =
      Some (camera_after env g (Suc n) d c,
        xs @ replicate d \<lparr>element_count = indices_size, instance_count = instanceCount g\<rparr>)"
    for c xs
    using Suc.prems(1) later by (intro Suc.IH) simp_all
  moreover have "[n ..< n + Suc d] = n # [Suc n ..< Suc n + d]"
    by (simp add: upt_conv_Cons)
  then have "camera_after env g n (Suc d) cameraPos =
      camera_after env g (Suc n) d (camera_step g (elapsed_time env n) cameraPos)"
    by (simp add: camera_after_def)
  ultimately show ?case using open_now
    by (subst render_loop.simps) (simp add: replicate_app_Cons_same)
qed

lemma render_loop_diverges:
  assumes "\<forall>m. \<not> glfwWindowShouldClose env m"
  shows "render_loop env g indices_size n cameraPos drawn = None"
proof -
  have "\<exists>m. glfwWindowShouldClose env m"
    if "render_loop env g indices_size n cameraPos drawn = Some r" for env g indices_size n cameraPos drawn r
    by (rule render_loop.raw_induct
        [where P = "\<lambda>env g indices_size n cameraPos drawn r. \<exists>m. glfwWindowShouldClose env m",
         OF _ that])
       (auto split: if_splits)
  from this [of env g indices_size n cameraPos drawn] assms show ?thesis
    by (cases "render_loop env g indices_size n cameraPos drawn") simp_all
qed

lemma main_with_returns:
  assumes "glfwInit_ok env" and "glfwCreateWindow_ok env" and "glewInit_ok env"
    and "glfwWindowShouldClose env d" and "\<forall>m < d. \<not> glfwWindowShouldClose env m"
  shows "main_with g env =
    Some (0, \<lparr>cerr_text = shader_log env,
              instance_buffer = map (record_at g) [0 ..< instanceCount g],
              draw_calls = replicate d \<lparr>element_count = 96, instance_count = instanceCount g\<rparr>,
              camera = camera_after env g 0 d
                (Vec3 (camSpead2 * cameraDist g) (cameraDist g) (camSpead2 * cameraDist g))\<rparr>)"
proof -
  have sphere: "generateSphere [] [] 4 4 = Some (mesh_vertices 4 4, index_lat_loop 4 4 0 [])"
    by (rule generateSphere_returns) simp_all
  have count: "length (index_lat_loop 4 4 0 []) = 96"
    by (simp add: length_index_lat_loop)
  have loop: "render_loop env g 96 0 c [] =
      Some (camera_after env g 0 d c,
        replicate d \<lparr>element_count = 96, instance_count = instanceCount g\<rparr>)" for c
    using render_loop_run [of env 0 d g 96 c "[]"] assms(4,5) by simp
  show ?thesis
    using assms(1-3)
    by (simp add: main_with_def sphere count build_instanceData_returns loop shader_log_def
        split_beta Let_def)
qed

lemma main_with_init_fails:
  "\<not> (glfwInit_ok env \<and> glfwCreateWindow_ok env \<and> glewInit_ok env) \<Longrightarrow>
     main_with g env = Some (- 1, no_trace)"
  by (auto simp: main_with_def)

lemma main_with_never_closes:
  assumes "glfwInit_ok env" and "glfwCreateWindow_ok env" and "glewInit_ok env"
    and "\<forall>m. \<not> glfwWindowShouldClose env m"
  shows "main_with g env = None"
proof -
  have sphere: "generateSphere [] [] 4 4 = Some (mesh_vertices 4 4, index_lat_loop 4 4 0 [])"
    by (rule generateSphere_returns) simp_all
  show ?thesis
    using assms(1-3)
    by (simp add: main_with_def sphere build_instanceData_returns
        render_loop_diverges [OF assms(4)] split_beta Let_def)
qed

lemma first_close:
  assumes "glfwWindowShouldClose env n"
  obtains d where "glfwWindowShouldClose env d" and "\<forall>m < d. \<not> glfwWindowShouldClose env m"
proof
  show "glfwWindowShouldClose env (LEAST d. glfwWindowShouldClose env d)"
    using assms by (rule LeastI)
  show "\<forall>m < (LEAST d. glfwWindowShouldClose env d). \<not> glfwWindowShouldClose env m"
    using not_less_Least by blast
qed

lemma main_returns:
  assumes "glfwInit_ok env \<and> glfwCreateWindow_ok env \<and> glewInit_ok env \<and>
    glfwWindowShouldClose env d \<and> (\<forall>m < d. \<not> glfwWindowShouldClose env m)"
  shows "\<exists>t. main env = Some (0, t) \<and> cerr_text t = shader_log env \<and>
    length (instance_buffer t) = 27000 \<and>
    draw_calls t = replicate d \<lparr>element_count = 96, instance_count = 27000\<rparr>"
proof -
  have count: "instanceCount program_lattice = 27000"
    by (simp add: instanceCount_def program_lattice_def)
  from assms have "main env =
    Some (0, \<lparr>cerr_text = shader_log env,
              instance_buffer = map (record_at program_lattice) [0 ..< instanceCount program_lattice],
              draw_calls = replicate d
                \<lparr>element_count = 96, instance_count = instanceCount program_lattice\<rparr>,
              camera = camera_after env program_lattice 0 d
                (Vec3 (camSpead2 * cameraDist program_lattice) (cameraDist program_lattice)
                   (camSpead2 * cameraDist program_lattice))\<rparr>)"
    unfolding main_def by (intro main_with_returns) simp_all
  then show ?thesis by (simp add: count)
qed

text \<open>C8: \<^verbatim>\<open>main\<close> returns \<open>- 1\<close> exactly when one of the three initialisations fails,
  it returns 0 exactly when they all succeed and the window is closed at some frame, it
  does not return exactly when they all succeed and the window is never closed, and
  there is no other outcome.\<close>

theorem main_exit_status:
  "(map_option fst (main env) = Some (- 1) \<longleftrightarrow>
      \<not> (glfwInit_ok env \<and> glfwCreateWindow_ok env \<and> glewInit_ok env)) \<and>
   (map_option fst (main env) = Some 0 \<longleftrightarrow>
      glfwInit_ok env \<and> glfwCreateWindow_ok env \<and> glewInit_ok env \<and>
      (\<exists>n. glfwWindowShouldClose env n)) \<and>
   (main env = None \<longleftrightarrow>
      glfwInit_ok env \<and> glfwCreateWindow_ok env \<and> glewInit_ok env \<and>
      (\<forall>n. \<not> glfwWindowShouldClose env n)) \<and>
   map_option fst (main env) \<in> {None, Some 0, Some (- 1)}"
proof (cases "glfwInit_ok env \<and> glfwCreateWindow_ok env \<and> glewInit_ok env")
  case False
  then have "main env = Some (- 1, no_trace)"
    unfolding main_def by (rule main_with_init_fails)
  with False show ?thesis by auto
next
  case True
  show ?thesis
  proof (cases "\<exists>n. glfwWindowShouldClose env n")
    case closes: True
    then obtain d where "glfwWindowShouldClose env d"
      and "\<forall>m < d. \<not> glfwWindowShouldClose env m"
      using first_close by blast
    with True have "\<exists>t. main env = Some (0, t)"
      unfolding main_def by (simp add: main_with_returns)
    with True closes show ?thesis by auto
  next
    case False
    with True have "main env = None"
      unfolding main_def by (simp add: main_with_never_closes)
    with True False show ?thesis by simp
  qed
qed

lemma main_returns_buffer:
  assumes "glfwInit_ok env \<and> glfwCreateWindow_ok env \<and> glewInit_ok env \<and>
    glfwWindowShouldClose env d \<and> (\<forall>m < d. \<not> glfwWindowShouldClose env m)"
  shows "\<exists>t. main env = Some (0, t) \<and>
    build_instanceData program_lattice (blank_instance env) = Some (instance_buffer t, [0 ..< 27000]) \<and>
    length (instance_buffer t) = 27000 \<and>
    draw_calls t = replicate d \<lparr>element_count = 96, instance_count = 27000\<rparr>"
proof -
  have count: "instanceCount program_lattice = 27000"
    by (simp add: instanceCount_def program_lattice_def)
  from assms have "main env =
    Some (0, \<lparr>cerr_text = shader_log env,
              instance_buffer = map (record_at program_lattice) [0 ..< instanceCount program_lattice],
              draw_calls = replicate d
                \<lparr>element_count = 96, instance_count = instanceCount program_lattice\<rparr>,
              camera = camera_after env program_lattice 0 d
                (Vec3 (camSpead2 * cameraDist program_lattice) (cameraDist program_lattice)
                   (camSpead2 * cameraDist program_lattice))\<rparr>)"
    unfolding main_def by (intro main_with_returns) simp_all
  then show ?thesis by (simp add: build_instanceData_returns count)
qed

text \<open>C6: the linearisation \<open>i * (Ny * Nz) + j * Nz + k\<close> maps the lattice coordinates
  one-to-one onto the indices below \<open>Nx * Ny * Nz\<close>. The loop nest returns a vector of
  exactly that many records, it has stored to the indices \<open>0, 1, \<dots>\<close> once each, in this
  order, and whatever the vector held before, the slot of every coordinate \<open>(i, j, k)\<close>
  now holds the record of that coordinate. The program has 27000 records; in a run that
  ends the vector so built is the instance buffer, and every frame issues one draw call
  with instance count 27000.\<close>

theorem linearisation_bijective:
  "bij_betw (\<lambda>(i, j, k). i * (numObj_y g * numObj_z g) + j * numObj_z g + k)
     ({0 ..< numObj_x g} \<times> {0 ..< numObj_y g} \<times> {0 ..< numObj_z g})
     {0 ..< numObj_x g * numObj_y g * numObj_z g} \<and>
   (\<exists>instanceData stores.
      build_instanceData g blank = Some (instanceData, stores) \<and>
      length instanceData = numObj_x g * numObj_y g * numObj_z g \<and>
      stores = [0 ..< numObj_x g * numObj_y g * numObj_z g] \<and>
      (\<forall>i < numObj_x g. \<forall>j < numObj_y g. \<forall>k < numObj_z g.
         instanceData ! (i * (numObj_y g * numObj_z g) + j * numObj_z g + k) =
           \<lparr>model = mat4_mult
              (translation_matrix
                 (- (real (numObj_x g) / 2) * spread g + spread g * real i)
                 (spread g * real j + spread g)
                 (- (real (numObj_z g) / 2) * spread g + spread g * real k))
              (scaling_matrix (instance_scale g)),
            color = Vec3 (0.1 * real (i + 1)) (0.1 * real (j + 1)) (0.1 * real (k + 1))\<rparr>)) \<and>
   instanceCount program_lattice = 27000 \<and>
   (glfwInit_ok env \<and> glfwCreateWindow_ok env \<and> glewInit_ok env \<and>
    glfwWindowShouldClose env d \<and> (\<forall>m < d. \<not> glfwWindowShouldClose env m) \<longrightarrow>
    (\<exists>t. main env = Some (0, t) \<and>
       build_instanceData program_lattice (blank_instance env) =
         Some (instance_buffer t, [0 ..< 27000]) \<and>
       length (instance_buffer t) = 27000 \<and>
       draw_calls t = replicate d \<lparr>element_count = 96, instance_count = 27000\<rparr>))"
proof (intro conjI impI)
  show "bij_betw (\<lambda>(i, j, k). i * (numObj_y g * numObj_z g) + j * numObj_z g + k)
     ({0 ..< numObj_x g} \<times> {0 ..< numObj_y g} \<times> {0 ..< numObj_z g})
     {0 ..< numObj_x g * numObj_y g * numObj_z g}"
    using linear_index_bij [of g] by (simp only: linear_index_def instanceCount_def)
  have "map (record_at g) [0 ..< instanceCount g]
      ! (i * (numObj_y g * numObj_z g) + j * numObj_z g + k) =
      \<lparr>model = mat4_mult
         (translation_matrix
            (- (real (numObj_x g) / 2) * spread g + spread g * real i)
            (spread g * real j + spread g)
            (- (real (numObj_z g) / 2) * spread g + spread g * real k))
         (scaling_matrix (instance_scale g)),
       color = Vec3 (0.1 * real (i + 1)) (0.1 * real (j + 1)) (0.1 * real (k + 1))\<rparr>"
    if "i < numObj_x g" "j < numObj_y g" "k < numObj_z g" for i j k
    using that by (simp add: build_instanceData_nth instance_record_def instance_model_product)
  then show "\<exists>instanceData stores.
      build_instanceData g blank = Some (instanceData, stores) \<and>
      length instanceData = numObj_x g * numObj_y g * numObj_z g \<and>
      stores = [0 ..< numObj_x g * numObj_y g * numObj_z g] \<and>
      (\<forall>i < numObj_x g. \<forall>j < numObj_y g. \<forall>k < numObj_z g.
         instanceData ! (i * (numObj_y g * numObj_z g) + j * numObj_z g + k) =
           \<lparr>model = mat4_mult
              (translation_matrix
                 (- (real (numObj_x g) / 2) * spread g + spread g * real i)
                 (spread g * real j + spread g)
                 (- (real (numObj_z g) / 2) * spread g + spread g * real k))
              (scaling_matrix (instance_scale g)),
            color = Vec3 (0.1 * real (i + 1)) (0.1 * real (j + 1)) (0.1 * real (k + 1))\<rparr>)"
    by (simp add: build_instanceData_returns instanceCount_def)
  show "instanceCount program_lattice = 27000"
    by (simp add: instanceCount_def program_lattice_def)
  assume "glfwInit_ok env \<and> glfwCreateWindow_ok env \<and> glewInit_ok env \<and>
    glfwWindowShouldClose env d \<and> (\<forall>m < d. \<not> glfwWindowShouldClose env m)"
  then show "\<exists>t. main env = Some (0, t) \<and>
       build_instanceData program_lattice (blank_instance env) =
         Some (instance_buffer t, [0 ..< 27000]) \<and>
       length (instance_buffer t) = 27000 \<and>
       draw_calls t = replicate d \<lparr>element_count = 96, instance_count = 27000\<rparr>"
    by (rule main_returns_buffer)
qed

text \<open>Witness: a run of two frames draws 27000 instances twice from the vector the loop
  nest built; the last record of that vector, of the coordinate \<open>(29, 29, 29)\<close>, is
  translated by \<open>(16.1, 34.5, 16.1)\<close> and has the colour \<open>(3, 3, 3)\<close>.\<close>

theorem linearisation_bijective_witness:
  "(\<exists>t. main sample_backend = Some (0, t) \<and>
      build_instanceData program_lattice (blank_instance sample_backend) =
        Some (instance_buffer t, [0 ..< 27000]) \<and>
      length (instance_buffer t) = 27000 \<and>
      draw_calls t = [\<lparr>element_count = 96, instance_count = 27000\<rparr>,
                      \<lparr>element_count = 96, instance_count = 27000\<rparr>]) \<and>
   (\<exists>instanceData stores.
      build_instanceData program_lattice (blank_instance sample_backend) =
        Some (instanceData, stores) \<and>
      stores = [0 ..< 27000] \<and>
      instanceData ! 26999 =
        \<lparr>model = mat4_mult (translation_matrix 16.1 34.5 16.1) (scaling_matrix 0.33),
         color = Vec3 3 3 3\<rparr>)"
proof -
  note fact = linearisation_bijective [of program_lattice "blank_instance sample_backend"
      sample_backend 2]
  have "glfwInit_ok sample_backend \<and> glfwCreateWindow_ok sample_backend \<and>
      glewInit_ok sample_backend \<and> glfwWindowShouldClose sample_backend 2 \<and>
      (\<forall>m < 2. \<not> glfwWindowShouldClose sample_backend m)"
    by (simp add: sample_backend_def)
  with fact
  have "\<exists>t. main sample_backend = Some (0, t) \<and>
      build_instanceData program_lattice (blank_instance sample_backend) =
        Some (instance_buffer t, [0 ..< 27000]) \<and>
      length (instance_buffer t) = 27000 \<and>
      draw_calls t = replicate 2 \<lparr>element_count = 96, instance_count = 27000\<rparr>"
    by blast
  then have run: "\<exists>t. main sample_backend = Some (0, t) \<and>
      build_instanceData program_lattice (blank_instance sample_backend) =
        Some (instance_buffer t, [0 ..< 27000]) \<and>
      length (instance_buffer t) = 27000 \<and>
      draw_calls t = [\<lparr>element_count = 96, instance_count = 27000\<rparr>,
                      \<lparr>element_count = 96, instance_count = 27000\<rparr>]"
    by (simp add: numeral_2_eq_2)
  from fact obtain instanceData stores
    where built: "build_instanceData program_lattice (blank_instance sample_backend) =
        Some (instanceData, stores)"
      and log: "stores = [0 ..< numObj_x program_lattice * numObj_y program_lattice
          * numObj_z program_lattice]"
      and slots: "\<forall>i < numObj_x program_lattice. \<forall>j < numObj_y program_lattice.
        \<forall>k < numObj_z program_lattice.
         instanceData ! (i * (numObj_y program_lattice * numObj_z program_lattice)
             + j * numObj_z program_lattice + k) =
           \<lparr>model = mat4_mult
              (translation_matrix
                 (- (real (numObj_x program_lattice) / 2) * spread program_lattice
                    + spread program_lattice * real i)
                 (spread program_lattice * real j + spread program_lattice)
                 (- (real (numObj_z program_lattice) / 2) * spread program_lattice
                    + spread program_lattice * real k))
              (scaling_matrix (instance_scale program_lattice)),
            color = Vec3 (0.1 * real (i + 1)) (0.1 * real (j + 1)) (0.1 * real (k + 1))\<rparr>"
    by blast
  have "29 < numObj_x program_lattice" "29 < numObj_y program_lattice"
    "29 < numObj_z program_lattice"
    by (simp_all add: program_lattice_def)
  with slots have "instanceData ! (29 * (numObj_y program_lattice * numObj_z program_lattice)
             + 29 * numObj_z program_lattice + 29) =
           \<lparr>model = mat4_mult
              (translation_matrix
                 (- (real (numObj_x program_lattice) / 2) * spread program_lattice
                    + spread program_lattice * real 29)
                 (spread program_lattice * real 29 + spread program_lattice)
                 (- (real (numObj_z program_lattice) / 2) * spread program_lattice
                    + spread program_lattice * real 29))
              (scaling_matrix (instance_scale program_lattice)),
            color = Vec3 (0.1 * real (29 + 1)) (0.1 * real (29 + 1)) (0.1 * real (29 + 1))\<rparr>"
    by blast
  then have "instanceData ! 26999 =
        \<lparr>model = mat4_mult (translation_matrix 16.1 34.5 16.1) (scaling_matrix 0.33),
         color = Vec3 3 3 3\<rparr>"
    by (simp add: program_lattice_def)
  moreover from log have "stores = [0 ..< 27000]"
    by (simp add: program_lattice_def)
  ultimately have "\<exists>instanceData stores.
      build_instanceData program_lattice (blank_instance sample_backend) =
        Some (instanceData, stores) \<and>
      stores = [0 ..< 27000] \<and>
      instanceData ! 26999 =
        \<lparr>model = mat4_mult (translation_matrix 16.1 34.5 16.1) (scaling_matrix 0.33),
         color = Vec3 3 3 3\<rparr>"
    using built by blast
  with run show ?thesis by (rule conjI)
qed

subsection \<open>Camera\<close>

lemma camera_step_eq:
  "camera_step g ms c =
     Vec3 (- camera_radius g * sin (camera_speed * (real_of_int ms / 1000))) (vy c)
       (camera_radius g * cos (camera_speed * (real_of_int ms / 1000)))"
  by (cases c) (simp add: Let_def mult.commute)

lemma vy_camera_after: "vy (camera_after env g n d c) = vy c"
  by (induction d arbitrary: c) (simp_all add: camera_after_def camera_step_eq)

lemma camera_after_Suc:
  "camera_after env g n (Suc d) c =
     Vec3 (- camera_radius g * sin (camera_speed * (real_of_int (elapsed_time env (n + d)) / 1000)))
       (vy c)
       (camera_radius g * cos (camera_speed * (real_of_int (elapsed_time env (n + d)) / 1000)))"
proof -
  have "camera_after env g n (Suc d) c =
      camera_step g (elapsed_time env (n + d)) (camera_after env g n d c)"
    by (simp add: camera_after_def)
  then show ?thesis by (simp add: camera_step_eq vy_camera_after)
qed

lemma horizontal_radius:
  "0 \<le> r \<Longrightarrow> sqrt ((- r * sin a)\<^sup>2 + (r * cos a)\<^sup>2) = r"
proof -
  assume "0 \<le> r"
  have "(- r * sin a)\<^sup>2 + (r * cos a)\<^sup>2 = r\<^sup>2 * ((sin a)\<^sup>2 + (cos a)\<^sup>2)"
    by (simp only: power_mult_distrib ring_distribs power2_minus mult_minus_left)
  also have "\<dots> = r\<^sup>2" by (simp only: sin_cos_squared_add mult_1_right)
  finally show ?thesis using \<open>0 \<le> r\<close> by simp
qed

text \<open>C7: the camera step of a frame read at \<open>ms\<close> milliseconds, \<open>t = ms / 1000\<close>, puts the
  camera at \<open>(- radius * sin (speed * t), y0, radius * cos (speed * t))\<close> and leaves the
  height \<open>y0\<close> as it was; at \<open>t = 0\<close> that is \<open>(0, y0, radius)\<close>. The radius is
  \<open>spread * Nx * 1.5\<close>; when the spread is not negative the horizontal distance of the
  camera from the axis is the radius. The same holds in the render loop: after any
  number of frames the camera is where the step of the last frame put it, at the height
  it had before the loop.\<close>

theorem camera_orbit:
  "camera_step g ms (Vec3 x0 y0 z0) =
     Vec3 (- camera_radius g * sin (camera_speed * (real_of_int ms / 1000))) y0
       (camera_radius g * cos (camera_speed * (real_of_int ms / 1000))) \<and>
   camera_step g 0 (Vec3 x0 y0 z0) = Vec3 0 y0 (camera_radius g) \<and>
   (0 \<le> spread g \<longrightarrow>
      sqrt ((vx (camera_step g ms (Vec3 x0 y0 z0)))\<^sup>2 + (vz (camera_step g ms (Vec3 x0 y0 z0)))\<^sup>2)
        = camera_radius g) \<and>
   (glfwWindowShouldClose env (Suc d) \<and> (\<forall>m < Suc d. \<not> glfwWindowShouldClose env m) \<longrightarrow>
      (\<exists>drawn. render_loop env g indices_size 0 (Vec3 x0 y0 z0) [] =
         Some (Vec3 (- camera_radius g * sin (camera_speed * (real_of_int (elapsed_time env d) / 1000)))
                 y0
                 (camera_radius g * cos (camera_speed * (real_of_int (elapsed_time env d) / 1000))),
               drawn)))"
proof (intro conjI impI)
  show "camera_step g ms (Vec3 x0 y0 z0) =
     Vec3 (- camera_radius g * sin (camera_speed * (real_of_int ms / 1000))) y0
       (camera_radius g * cos (camera_speed * (real_of_int ms / 1000)))"
    by (simp add: camera_step_eq)
  show "camera_step g 0 (Vec3 x0 y0 z0) = Vec3 0 y0 (camera_radius g)"
    by (simp add: camera_step_eq)
  show "sqrt ((vx (camera_step g ms (Vec3 x0 y0 z0)))\<^sup>2 + (vz (camera_step g ms (Vec3 x0 y0 z0)))\<^sup>2)
      = camera_radius g" if "0 \<le> spread g"
  proof -
    from that have "0 \<le> camera_radius g"
      by (simp add: camera_radius_def cameraDist_def)
    then show ?thesis
      by (simp only: camera_step_eq vec3.sel horizontal_radius)
  qed
  show "\<exists>drawn. render_loop env g indices_size 0 (Vec3 x0 y0 z0) [] =
         Some (Vec3 (- camera_radius g * sin (camera_speed * (real_of_int (elapsed_time env d) / 1000)))
                 y0
                 (camera_radius g * cos (camera_speed * (real_of_int (elapsed_time env d) / 1000))),
               drawn)"
    if "glfwWindowShouldClose env (Suc d) \<and> (\<forall>m < Suc d. \<not> glfwWindowShouldClose env m)"
    using that render_loop_run [of env 0 "Suc d" g indices_size "Vec3 x0 y0 z0" "[]"]
    by (simp add: camera_after_Suc)
qed

text \<open>Witness: the program, whose radius is 51.75, at 250 and at 0 milliseconds, and
  after the two frames of the sample backend.\<close>

theorem camera_orbit_witness:
  "sqrt ((vx (camera_step program_lattice 250 (Vec3 1 2 3)))\<^sup>2
       + (vz (camera_step program_lattice 250 (Vec3 1 2 3)))\<^sup>2) = 51.75 \<and>
   camera_step program_lattice 0 (Vec3 1 2 3) = Vec3 0 2 51.75 \<and>
   (\<exists>drawn. render_loop sample_backend program_lattice 96 0 (Vec3 1 2 3) [] =
      Some (Vec3 (- 51.75 * sin (0.1 * (16 / 1000))) 2 (51.75 * cos (0.1 * (16 / 1000))), drawn))"
proof -
  have radius: "camera_radius program_lattice = 51.75"
    by (simp add: camera_radius_def cameraDist_def program_lattice_def)
  have "0 \<le> spread program_lattice"
    by (simp add: program_lattice_def)
  moreover have "glfwWindowShouldClose sample_backend (Suc 1) \<and>
      (\<forall>m < Suc 1. \<not> glfwWindowShouldClose sample_backend m)"
    by (simp add: sample_backend_def)
  moreover note camera_orbit [of program_lattice 250 1 2 3 sample_backend 1 96]
    camera_orbit [of program_lattice 0 1 2 3 sample_backend 1 96]
  ultimately have "sqrt ((vx (camera_step program_lattice 250 (Vec3 1 2 3)))\<^sup>2
       + (vz (camera_step program_lattice 250 (Vec3 1 2 3)))\<^sup>2) = camera_radius program_lattice"
    and "camera_step program_lattice 0 (Vec3 1 2 3) = Vec3 0 2 (camera_radius program_lattice)"
    and "\<exists>drawn. render_loop sample_backend program_lattice 96 0 (Vec3 1 2 3) [] =
      Some (Vec3 (- camera_radius program_lattice
                    * sin (camera_speed * (real_of_int (elapsed_time sample_backend 1) / 1000)))
              2
              (camera_radius program_lattice
                 * cos (camera_speed * (real_of_int (elapsed_time sample_backend 1) / 1000))),
            drawn)"
    by blast+
  then show ?thesis
    by (simp add: radius camera_speed_def sample_backend_def)
qed

subsection \<open>Shader compilation\<close>

text \<open>C9: when the backend reports the compile status 0, \<^verbatim>\<open>compileShader\<close> appends the
  diagnostic line to \<^verbatim>\<open>std::cerr\<close> and still returns the shader handle; with any other
  status it writes nothing. Either way \<^verbatim>\<open>main\<close> goes on: when the initialisations
  succeed and the window is closed at frame \<open>d\<close>, it has drawn \<open>d\<close> frames, returns 0,
  and \<^verbatim>\<open>std::cerr\<close> holds what the two calls of \<^verbatim>\<open>compileShader\<close> wrote.\<close>

theorem compileShader_failure_logged:
  "(compile_status env (glCreateShader env type) = 0 \<longrightarrow>
      compileShader env type source cerr =
        (glCreateShader env type,
         cerr @ ''Error compiling shader: '' @ info_log env (glCreateShader env type)
           @ [CHR 0x0A])) \<and>
   (compile_status env (glCreateShader env type) \<noteq> 0 \<longrightarrow>
      compileShader env type source cerr = (glCreateShader env type, cerr)) \<and>
   (glfwInit_ok env \<and> glfwCreateWindow_ok env \<and> glewInit_ok env \<and>
    glfwWindowShouldClose env d \<and> (\<forall>m < d. \<not> glfwWindowShouldClose env m) \<longrightarrow>
    (\<exists>t. main env = Some (0, t) \<and> length (draw_calls t) = d \<and>
       cerr_text t =
         snd (compileShader env GL_FRAGMENT_SHADER fragmentShaderSource
           (snd (compileShader env GL_VERTEX_SHADER vertexShaderSource [])))))"
proof (intro conjI impI)
  assume "compile_status env (glCreateShader env type) = 0"
  then show "compileShader env type source cerr =
      (glCreateShader env type,
       cerr @ ''Error compiling shader: '' @ info_log env (glCreateShader env type)
         @ [CHR 0x0A])"
    by (simp add: compileShader_def Let_def)
next
  assume "compile_status env (glCreateShader env type) \<noteq> 0"
  then show "compileShader env type source cerr = (glCreateShader env type, cerr)"
    by (simp add: compileShader_def Let_def)
next
  assume "glfwInit_ok env \<and> glfwCreateWindow_ok env \<and> glewInit_ok env \<and>
    glfwWindowShouldClose env d \<and> (\<forall>m < d. \<not> glfwWindowShouldClose env m)"
  from main_returns [OF this]
  obtain t where "main env = Some (0, t)" and "cerr_text t = shader_log env"
    and "draw_calls t = replicate d \<lparr>element_count = 96, instance_count = 27000\<rparr>"
    by blast
  then have "main env = Some (0, t) \<and> length (draw_calls t) = d \<and>
       cerr_text t =
         snd (compileShader env GL_FRAGMENT_SHADER fragmentShaderSource
           (snd (compileShader env GL_VERTEX_SHADER vertexShaderSource [])))"
    by (simp add: shader_log_def)
  then show "\<exists>t. main env = Some (0, t) \<and> length (draw_calls t) = d \<and>
       cerr_text t =
         snd (compileShader env GL_FRAGMENT_SHADER fragmentShaderSource
           (snd (compileShader env GL_VERTEX_SHADER vertexShaderSource [])))"
    by (rule exI)
qed

text \<open>Witness: the sample backend, whose vertex shader fails to compile.\<close>

theorem compileShader_failure_logged_witness:
  "compileShader sample_backend GL_VERTEX_SHADER vertexShaderSource [] =
     (1, ''Error compiling shader: syntax error'' @ [CHR 0x0A]) \<and>
   compileShader sample_backend GL_FRAGMENT_SHADER fragmentShaderSource ''earlier text'' =
     (2, ''earlier text'') \<and>
   (\<exists>t. main sample_backend = Some (0, t) \<and> length (draw_calls t) = 2 \<and>
      cerr_text t = ''Error compiling shader: syntax error'' @ [CHR 0x0A])"
proof -
  have fails: "compile_status sample_backend (glCreateShader sample_backend GL_VERTEX_SHADER) = 0"
    and passes:
      "compile_status sample_backend (glCreateShader sample_backend GL_FRAGMENT_SHADER) \<noteq> 0"
    and runs: "glfwInit_ok sample_backend \<and> glfwCreateWindow_ok sample_backend \<and>
      glewInit_ok sample_backend \<and> glfwWindowShouldClose sample_backend 2 \<and>
      (\<forall>m < 2. \<not> glfwWindowShouldClose sample_backend m)"
    by (simp_all add: sample_backend_def)
  from fails compileShader_failure_logged
    [of sample_backend GL_VERTEX_SHADER vertexShaderSource "[]" 2]
  have vertex: "compileShader sample_backend GL_VERTEX_SHADER vertexShaderSource [] =
      (1, ''Error compiling shader: syntax error'' @ [CHR 0x0A])"
    by (simp add: sample_backend_def)
  from passes compileShader_failure_logged
    [of sample_backend GL_FRAGMENT_SHADER fragmentShaderSource _ 2]
  have fragment: "compileShader sample_backend GL_FRAGMENT_SHADER fragmentShaderSource cerr =
      (2, cerr)" for cerr
    by (simp add: sample_backend_def)
  from runs compileShader_failure_logged
    [of sample_backend GL_VERTEX_SHADER vertexShaderSource "[]" 2]
  have "\<exists>t. main sample_backend = Some (0, t) \<and> length (draw_calls t) = 2 \<and>
      cerr_text t =
        snd (compileShader sample_backend GL_FRAGMENT_SHADER fragmentShaderSource
          (snd (compileShader sample_backend GL_VERTEX_SHADER vertexShaderSource [])))"
    by blast
  with vertex fragment show ?thesis by simp
qed

end
